theory Spec2Isabelle
  imports Complex_Main
begin

section \<open>Array elements\<close>

text \<open>
  The arrays of \<^verbatim>\<open>_feedback.py\<close> hold floating-point numbers. An element is modelled
  as an exact real number or one of the three special values the code itself produces or
  guards against: the quotient \<^verbatim>\<open>1 / norm\<close> at \<^verbatim>\<open>norm == 0\<close> is \<^verbatim>\<open>inf\<close>, and
  \<^verbatim>\<open>0 * inf\<close> is \<^verbatim>\<open>nan\<close> (the comment in \<^verbatim>\<open>update_target\<close> speaks of
  "nan-blurring"). Finite arithmetic is exact: rounding and overflow are not modelled, and
  a cast to \<^verbatim>\<open>self.dtype\<close> leaves the value as it is.
\<close>

datatype fval = Fin real | PInf | NInf | NaN

fun is_finite :: "fval \<Rightarrow> bool" where
  "is_finite (Fin x) = True"
| "is_finite PInf = False"
| "is_finite NInf = False"
| "is_finite NaN = False"

text \<open>\<^verbatim>\<open>abs\<close> on one element.\<close>

fun fabs :: "fval \<Rightarrow> fval" where
  "fabs (Fin x) = Fin \<bar>x\<bar>"
| "fabs PInf = PInf"
| "fabs NInf = PInf"
| "fabs NaN = NaN"

text \<open>The product of two elements: \<^verbatim>\<open>0 * inf\<close> is \<^verbatim>\<open>nan\<close>.\<close>

fun fmul :: "fval \<Rightarrow> fval \<Rightarrow> fval" where
  "fmul (Fin x) (Fin y) = Fin (x * y)"
| "fmul (Fin x) PInf = (if x = 0 then NaN else if 0 < x then PInf else NInf)"
| "fmul (Fin x) NInf = (if x = 0 then NaN else if 0 < x then NInf else PInf)"
| "fmul PInf (Fin y) = (if y = 0 then NaN else if 0 < y then PInf else NInf)"
| "fmul NInf (Fin y) = (if y = 0 then NaN else if 0 < y then NInf else PInf)"
| "fmul PInf PInf = PInf"
| "fmul PInf NInf = NInf"
| "fmul NInf PInf = NInf"
| "fmul NInf NInf = PInf"
| "fmul NaN y = NaN"
| "fmul x NaN = NaN"

text \<open>
  The expression \<^verbatim>\<open>1 / norm\<close> on a numpy or cupy scalar: division by zero gives
  \<^verbatim>\<open>inf\<close> (with a warning, no exception).
\<close>

fun frecip :: "fval \<Rightarrow> fval" where
  "frecip (Fin x) = (if x = 0 then PInf else Fin (1 / x))"
| "frecip PInf = Fin 0"
| "frecip NInf = Fin 0"
| "frecip NaN = NaN"

text \<open>\<^verbatim>\<open>sqrt\<close> and \<^verbatim>\<open>square\<close> on one element; the root of a negative number is \<^verbatim>\<open>nan\<close>.\<close>

fun fsqrt :: "fval \<Rightarrow> fval" where
  "fsqrt (Fin x) = (if x < 0 then NaN else Fin (sqrt x))"
| "fsqrt PInf = PInf"
| "fsqrt NInf = NaN"
| "fsqrt NaN = NaN"

fun fsquare :: "fval \<Rightarrow> fval" where
  "fsquare (Fin x) = Fin (x * x)"
| "fsquare PInf = PInf"
| "fsquare NInf = PInf"
| "fsquare NaN = NaN"

text \<open>A two-dimensional array is the list of its rows.\<close>

type_synonym image = "fval list list"

definition img_map :: "(fval \<Rightarrow> fval) \<Rightarrow> image \<Rightarrow> image" where
  "img_map f im = map (map f) im"

definition all_pixels :: "(fval \<Rightarrow> bool) \<Rightarrow> image \<Rightarrow> bool" where
  "all_pixels P im = list_all (list_all P) im"

section \<open>Two-vectors and 2x2 matrices\<close>

type_synonym vec2 = "real \<times> real"
type_synonym mat2 = "(real \<times> real) \<times> (real \<times> real)"

definition vadd :: "vec2 \<Rightarrow> vec2 \<Rightarrow> vec2" where
  "vadd u v = (fst u + fst v, snd u + snd v)"

definition vsub :: "vec2 \<Rightarrow> vec2 \<Rightarrow> vec2" where
  "vsub u v = (fst u - fst v, snd u - snd v)"

definition vneg :: "vec2 \<Rightarrow> vec2" where
  "vneg u = (- fst u, - snd u)"

text \<open>\<^verbatim>\<open>np.flip\<close> of a two-vector.\<close>

definition vflip :: "vec2 \<Rightarrow> vec2" where
  "vflip u = (snd u, fst u)"

text \<open>\<^verbatim>\<open>np.diag\<close> of a two-vector.\<close>

definition mdiag :: "vec2 \<Rightarrow> mat2" where
  "mdiag u = ((fst u, 0), (0, snd u))"

text \<open>\<^verbatim>\<open>np.matmul\<close> of a matrix with a column vector and with a matrix.\<close>

definition mat_vec :: "mat2 \<Rightarrow> vec2 \<Rightarrow> vec2" where
  "mat_vec m v =
     (fst (fst m) * fst v + snd (fst m) * snd v,
      fst (snd m) * fst v + snd (snd m) * snd v)"

definition mat_mul :: "mat2 \<Rightarrow> mat2 \<Rightarrow> mat2" where
  "mat_mul m n =
     ((fst (fst m) * fst (fst n) + snd (fst m) * fst (snd n),
       fst (fst m) * snd (fst n) + snd (fst m) * snd (snd n)),
      (fst (snd m) * fst (fst n) + snd (snd m) * fst (snd n),
       fst (snd m) * snd (fst n) + snd (snd m) * snd (snd n)))"

text \<open>\<^verbatim>\<open>np.flip(m, axis=0)\<close> swaps the rows, \<^verbatim>\<open>np.flip(m, axis=1)\<close> the columns.\<close>

definition flip_axis0 :: "mat2 \<Rightarrow> mat2" where
  "flip_axis0 m = (snd m, fst m)"

definition flip_axis1 :: "mat2 \<Rightarrow> mat2" where
  "flip_axis1 m = ((snd (fst m), fst (fst m)), (snd (snd m), fst (snd m)))"

section \<open>Objects and state\<close>

text \<open>
  The exceptions the class raises. The specification's names stand for them:
  \<^verbatim>\<open>NotCalibratedError\<close> is the \<^verbatim>\<open>AssertionError\<close> of the two asserts of
  \<^verbatim>\<open>ijcam_to_knmslm\<close>, \<^verbatim>\<open>OutOfRangeError\<close> the \<^verbatim>\<open>ValueError\<close> "No power in hologram",
  \<^verbatim>\<open>ConfigurationError\<close> the \<^verbatim>\<open>ValueError\<close> of the constructor.
\<close>

datatype error =
    AssertionError
  | ValueError string
  | AttributeError string
  | KeyError string
  | TypeError string
  | NotImplementedError

definition no_power_msg :: string where
  "no_power_msg =
     ''No power in hologram. Maybe target_ij is out of range of knm space? Check transformations.''"

definition expected_msg :: string where
  "expected_msg = ''Expected a CameraSLM or SLM to be passed to cameraslm.''"

text \<open>
  The device objects. An SLM has a shape and a source amplitude; the call
  \<^verbatim>\<open>_get_source_amplitude()\<close> may raise, which is \<open>None\<close> here. A FourierSLM holds an
  SLM, a camera and a Fourier calibration, which may be \<^verbatim>\<open>None\<close>.
\<close>

record slm_obj =
  slm_shape :: "nat \<times> nat"
  slm_source_amplitude :: "image option"

record cam_obj =
  camera_shape :: "nat \<times> nat"

record calibration =
  cal_M :: mat2
  cal_b :: vec2
  cal_a :: vec2

record fourier_slm =
  slm :: slm_obj
  cam :: cam_obj
  fourier_calibration :: "calibration option"

text \<open>
  What the constructor may receive as \<^verbatim>\<open>cameraslm\<close>: \<^verbatim>\<open>None\<close>, a FourierSLM, a bare
  SLM, or an object with neither an \<^verbatim>\<open>slm\<close> attribute nor a
  \<^verbatim>\<open>_get_source_amplitude\<close> method.
\<close>

datatype pyref = PyNone | PyFourierSLM fourier_slm | PySLM slm_obj | PyOther

text \<open>
  The entries of \<^verbatim>\<open>self.flags\<close> that this class reads, each with the type it is used
  at; \<open>None\<close> is a key that is not in the dictionary.
\<close>

record flag_dict =
  flag_feedback :: "string option"
  flag_blur_ij :: "real option"
  flag_raw_stats :: "bool option"

text \<open>
  Device input and output is logged in the order it happens: \<^verbatim>\<open>slm.write(phase,
  settle)\<close>, \<^verbatim>\<open>cam.flush()\<close>, \<^verbatim>\<open>cam.get_image()\<close> and \<^verbatim>\<open>plot_farfield\<close>.
\<close>

datatype io_event = SlmWrite image bool | CamFlush | CamGetImage | PlotFarfield

text \<open>
  Arrays are objects on a heap: \<open>store\<close> maps the address of an array to its contents
  and \<open>nxt\<close> is the next free address. Two references to one array are one address, so
  a write through one is seen through the other.
\<close>

type_synonym addr = nat

record world =
  store :: "addr \<Rightarrow> image"
  nxt :: addr
  io_log :: "io_event list"

text \<open>
  The attributes of a \<^verbatim>\<open>FeedbackHologram\<close>: those of the base class \<^verbatim>\<open>Hologram\<close>
  that this file reads or writes (\<open>shape\<close>, \<open>flags\<close>, \<open>target\<close>, \<open>weights\<close>,
  \<open>amp_ff\<close>, \<open>phase\<close>), and its own.
\<close>

record hologram = world +
  shape :: "nat \<times> nat"
  flags :: flag_dict
  target :: addr
  weights :: addr
  amp_ff :: "addr option"
  phase :: addr
  cameraslm :: "fourier_slm option"
  img_ij :: "addr option"
  img_knm :: "addr option"
  target_ij :: "addr option"
  cam_points :: "vec2 list option"
  cam_shape :: "(nat \<times> nat) option"

definition alloc :: "image \<Rightarrow> hologram \<Rightarrow> addr \<times> hologram" where
  "alloc im s = (nxt s, s\<lparr>store := (store s)(nxt s := im), nxt := Suc (nxt s)\<rparr>)"

definition write_arr :: "addr \<Rightarrow> image \<Rightarrow> hologram \<Rightarrow> hologram" where
  "write_arr a im s = s\<lparr>store := (store s)(a := im)\<rparr>"

text \<open>
  The keyword arguments the constructor looks at; the outer \<open>None\<close> is a key that was
  not passed.
\<close>

record kwargs =
  kw_amp :: "image option option"
  kw_slm_shape :: "(nat \<times> nat) option option"

text \<open>
  The collaborators whose code is not in \<^verbatim>\<open>_feedback.py\<close> are parameters of the
  model: \<^verbatim>\<open>Hologram._norm\<close>, \<^verbatim>\<open>cp_affine_transform\<close> (input, matrix, offset, output
  shape, order; mode constant with value 0), \<^verbatim>\<open>sp_gaussian_filter\<close> (input and sigma,
  truncated at 2), \<^verbatim>\<open>toolbox.convert_vector\<close>, \<^verbatim>\<open>FourierSLM.ijcam_to_kxyslm\<close>, the
  camera's \<^verbatim>\<open>get_image\<close> (the frame it returns as a function of the device log so
  far), and of the base class \<^verbatim>\<open>extract_phase\<close>, \<^verbatim>\<open>reset_weights\<close>,
  \<^verbatim>\<open>_update_weights_generic\<close> and the constructor (the call
  \<^verbatim>\<open>super().__init__(target=shape, amp=amp, **kwargs)\<close>).
\<close>

record collab =
  Hologram_norm :: "image \<Rightarrow> fval"
  cp_affine_transform :: "image \<Rightarrow> mat2 \<Rightarrow> vec2 \<Rightarrow> nat \<times> nat \<Rightarrow> int \<Rightarrow> image"
  sp_gaussian_filter :: "image \<Rightarrow> real \<Rightarrow> image"
  convert_vector :: "vec2 \<Rightarrow> string \<Rightarrow> string \<Rightarrow> slm_obj \<Rightarrow> nat \<times> nat \<Rightarrow> vec2"
  ijcam_to_kxyslm :: "fourier_slm \<Rightarrow> vec2 \<Rightarrow> vec2"
  get_image :: "io_event list \<Rightarrow> image"
  extract_phase :: "hologram \<Rightarrow> image"
  reset_weights :: "hologram \<Rightarrow> hologram"
  update_weights_generic :: "addr \<Rightarrow> addr option \<Rightarrow> addr \<Rightarrow> hologram \<Rightarrow> hologram"
  Hologram_init :: "nat \<times> nat \<Rightarrow> image option \<Rightarrow> kwargs \<Rightarrow> world \<Rightarrow> error + hologram"

section \<open>The coordinate transform\<close>

text \<open>
  Lines 146 to 162 of \<^verbatim>\<open>ijcam_to_knmslm\<close>: the matrix and the offset handed to the
  affine transform, from the scaling of the computational grid and the Fourier
  calibration.
\<close>

definition composite_map :: "collab \<Rightarrow> fourier_slm \<Rightarrow> calibration \<Rightarrow> nat \<times> nat \<Rightarrow> mat2 \<times> vec2" where
  "composite_map E cs cal shp =
     (let conversion =
            vsub (convert_vector E (1, 1) ''knm'' ''kxy'' (slm cs) shp)
                 (convert_vector E (0, 0) ''knm'' ''kxy'' (slm cs) shp);
          M1 = mdiag conversion;
          b1 = mat_vec M1 (vneg (real (snd shp) / 2, real (fst shp) / 2));
          M2 = cal_M cal;
          b2 = vsub (cal_b cal) (mat_vec M2 (cal_a cal));
          M = flip_axis1 (flip_axis0 (mat_mul M2 M1));
          b = vflip (vadd (mat_vec M2 b1) b2)
      in (M, b))"

text \<open>
  Lines 165 to 169: the blur in force, from the argument, else from the flag
  \<^verbatim>\<open>"blur_ij"\<close>, else zero.
\<close>

definition effective_blur :: "real option \<Rightarrow> flag_dict \<Rightarrow> real" where
  "effective_blur blur_ij fl =
     (case blur_ij of
        Some r \<Rightarrow> r
      | None \<Rightarrow> (case flag_blur_ij fl of Some r \<Rightarrow> r | None \<Rightarrow> 0))"

text \<open>
  \<^verbatim>\<open>ijcam_to_knmslm(self, img, out=None, blur_ij=None, order=3)\<close>. The arguments
  \<open>img\<close> and \<open>out\<close> are references to arrays. The result is the exception or the
  reference returned, together with the state the call leaves behind: what it wrote
  before raising stays written. The blur writes into \<open>img\<close> itself
  (\<^verbatim>\<open>output=img\<close>), \<^verbatim>\<open>cp.array\<close> makes a copy, and the affine transform writes into
  \<open>out\<close> when there is one and into a new array otherwise.
\<close>

definition ijcam_to_knmslm ::
  "collab \<Rightarrow> addr \<Rightarrow> addr option \<Rightarrow> real option \<Rightarrow> int \<Rightarrow> hologram \<Rightarrow> (error + addr) \<times> hologram"
where
  "ijcam_to_knmslm E img out blur_ij order s =
     (case cameraslm s of
        None \<Rightarrow> (Inl AssertionError, s)
      | Some cs \<Rightarrow>
          (case fourier_calibration cs of
             None \<Rightarrow> (Inl AssertionError, s)
           | Some cal \<Rightarrow>
               (let (M, b) = composite_map E cs cal (shape s);
                    blur = effective_blur blur_ij (flags s);
                    s1 = (if blur > 0
                          then write_arr img (sp_gaussian_filter E (store s img) blur) s
                          else s);
                    (cp_img, s2) = alloc (img_map fabs (store s1 img)) s1;
                    moved = cp_affine_transform E (store s2 cp_img) M b (shape s) order;
                    (tgt, s3) = (case out of
                                   None \<Rightarrow> alloc moved s2
                                 | Some a \<Rightarrow> (a, write_arr a moved s2));
                    s4 = write_arr tgt (img_map fabs (store s3 tgt)) s3;
                    norm = Hologram_norm E (store s4 tgt);
                    s5 = write_arr tgt (img_map (\<lambda>x. fmul x (frecip norm)) (store s4 tgt)) s4
                in if norm = Fin 0
                   then (Inl (ValueError no_power_msg), s5)
                   else (Inr tgt, s5))))"

text \<open>
  An instance is calibrated when it has a \<^verbatim>\<open>cameraslm\<close> whose Fourier calibration is
  not \<^verbatim>\<open>None\<close>: the two asserts of \<^verbatim>\<open>ijcam_to_knmslm\<close> pass.
\<close>

definition calibrated :: "hologram \<Rightarrow> bool" where
  "calibrated s =
     (case cameraslm s of None \<Rightarrow> False | Some cs \<Rightarrow> fourier_calibration cs \<noteq> None)"

text \<open>
  What \<^verbatim>\<open>target\<close> holds after line 194, before it is normalised, when the array
  \<open>img\<close> holds \<open>im\<close> at the call: the magnitude of the resampled magnitude of the
  blurred image. Its norm is the total power that line 198 compares with zero.
\<close>

definition blurred :: "collab \<Rightarrow> image \<Rightarrow> real \<Rightarrow> image" where
  "blurred E im blur = (if blur > 0 then sp_gaussian_filter E im blur else im)"

definition resampled :: "collab \<Rightarrow> image \<Rightarrow> real option \<Rightarrow> int \<Rightarrow> hologram \<Rightarrow> image" where
  "resampled E im blur_ij order s =
     (case cameraslm s of
        None \<Rightarrow> []
      | Some cs \<Rightarrow>
          (case fourier_calibration cs of
             None \<Rightarrow> []
           | Some cal \<Rightarrow>
               img_map fabs
                 (cp_affine_transform E
                    (img_map fabs (blurred E im (effective_blur blur_ij (flags s))))
                    (fst (composite_map E cs cal (shape s)))
                    (snd (composite_map E cs cal (shape s)))
                    (shape s) order)))"

definition total_power :: "collab \<Rightarrow> image \<Rightarrow> real option \<Rightarrow> int \<Rightarrow> hologram \<Rightarrow> fval" where
  "total_power E im blur_ij order s = Hologram_norm E (resampled E im blur_ij order s)"

text \<open>Multiplying every element by a scalar, as \<^verbatim>\<open>target *= 1 / norm\<close> does.\<close>

definition scale :: "fval \<Rightarrow> image \<Rightarrow> image" where
  "scale c im = img_map (\<lambda>x. fmul x c) im"


section \<open>The measurement cache\<close>

text \<open>
  \<^verbatim>\<open>measure(self, basis="ij")\<close>. With no image cached it writes the phase to the SLM,
  flushes the camera and takes one frame; \<^verbatim>\<open>self.cameraslm\<close> being \<^verbatim>\<open>None\<close> there
  is an \<^verbatim>\<open>AttributeError\<close>. The frame is stored in \<^verbatim>\<open>self.img_ij\<close> before the
  transform runs, and the transform is handed that same array.
\<close>

definition measure_img :: "collab \<Rightarrow> string \<Rightarrow> hologram \<Rightarrow> error option \<times> hologram" where
  "measure_img E basis s =
     (case img_ij s of
        None \<Rightarrow>
          (case cameraslm s of
             None \<Rightarrow> (Some (AttributeError ''slm''), s)
           | Some cs \<Rightarrow>
               (let s1 = s\<lparr>io_log := io_log s @ [SlmWrite (extract_phase E s) True]\<rparr>;
                    s2 = s1\<lparr>io_log := io_log s1 @ [CamFlush]\<rparr>;
                    frame = get_image E (io_log s2);
                    s3 = s2\<lparr>io_log := io_log s2 @ [CamGetImage]\<rparr>;
                    (a, s4) = alloc frame s3;
                    s5 = s4\<lparr>img_ij := Some a\<rparr>
                in if basis = ''knm''
                   then (case ijcam_to_knmslm E a (img_knm s5) None 3 s5 of
                           (Inl e, s6) \<Rightarrow> (Some e, s6)
                         | (Inr r, s6) \<Rightarrow>
                             (let s7 = s6\<lparr>img_knm := Some r\<rparr>;
                                  s8 = write_arr r (img_map fsqrt (store s7 r)) s7;
                                  (a2, s9) = alloc (img_map fsqrt (store s8 a)) s8
                              in (None, s9\<lparr>img_ij := Some a2\<rparr>)))
                   else (let s6 = s5\<lparr>img_knm := None\<rparr>;
                             (a2, s7) = alloc (img_map fsqrt (store s6 a)) s6
                         in (None, s7\<lparr>img_ij := Some a2\<rparr>))))
      | Some ij \<Rightarrow>
          if basis = ''knm''
          then (case img_knm s of
                  None \<Rightarrow>
                    (let (sq, s1) = alloc (img_map fsquare (store s ij)) s
                     in (case ijcam_to_knmslm E sq None None 3 s1 of
                           (Inl e, s2) \<Rightarrow> (Some e, s2)
                         | (Inr r, s2) \<Rightarrow>
                             (let s3 = s2\<lparr>img_knm := Some r\<rparr>
                              in (None, write_arr r (img_map fsqrt (store s3 r)) s3))))
                | Some knm \<Rightarrow> (None, s))
          else (None, s))"











section \<open>Target and weights\<close>

text \<open>\<^verbatim>\<open>update_target(self, new_target, reset_weights=False, plot=False)\<close>.\<close>

definition update_target :: "collab \<Rightarrow> addr \<Rightarrow> bool \<Rightarrow> bool \<Rightarrow> hologram \<Rightarrow> error option \<times> hologram" where
  "update_target E new_target reset plot s =
     (case ijcam_to_knmslm E new_target (Some (target s)) None 0 s of
        (Inl e, s1) \<Rightarrow> (Some e, s1)
      | (Inr r, s1) \<Rightarrow>
          (let s2 = (if reset then reset_weights E s1 else s1);
               s3 = (if plot then s2\<lparr>io_log := io_log s2 @ [PlotFarfield]\<rparr> else s2)
           in (None, s3)))"

text \<open>\<^verbatim>\<open>refine_offset(self, img, basis="kxy")\<close> raises \<^verbatim>\<open>NotImplementedError\<close>.\<close>

definition refine_offset :: "addr \<Rightarrow> string \<Rightarrow> hologram \<Rightarrow> error option \<times> hologram" where
  "refine_offset img basis s = (Some NotImplementedError, s)"

text \<open>
  \<^verbatim>\<open>_update_weights(self)\<close>. Reading \<^verbatim>\<open>self.flags["feedback"]\<close> with the key missing is
  a \<^verbatim>\<open>KeyError\<close>; the \<^verbatim>\<open>if\<close>/\<^verbatim>\<open>elif\<close> chain has no \<^verbatim>\<open>else\<close>.
\<close>

definition update_weights :: "collab \<Rightarrow> hologram \<Rightarrow> error option \<times> hologram" where
  "update_weights E s =
     (case flag_feedback (flags s) of
        None \<Rightarrow> (Some (KeyError ''feedback''), s)
      | Some feedback \<Rightarrow>
          if feedback = ''computational''
          then (None, update_weights_generic E (weights s) (amp_ff s) (target s) s)
          else if feedback = ''experimental''
          then (case measure_img E ''knm'' s of
                  (Some e, s1) \<Rightarrow> (Some e, s1)
                | (None, s1) \<Rightarrow>
                    (None, update_weights_generic E (weights s1) (img_knm s1) (target s1) s1))
          else (None, s))"

section \<open>The constructor\<close>

text \<open>
  The two attempts of the constructor at its \<^verbatim>\<open>cameraslm\<close> argument. The first reads
  \<^verbatim>\<open>cameraslm.slm._get_source_amplitude()\<close> and \<^verbatim>\<open>cameraslm.slm.shape\<close>, the second
  \<^verbatim>\<open>cameraslm._get_source_amplitude()\<close> and \<^verbatim>\<open>cameraslm.shape\<close>; a missing attribute
  is an \<^verbatim>\<open>AttributeError\<close>, and whatever is raised is caught by the bare
  \<^verbatim>\<open>except\<close>.
\<close>

fun as_cameraslm :: "pyref \<Rightarrow> error + image \<times> (nat \<times> nat)" where
  "as_cameraslm (PyFourierSLM c) =
     (case slm_source_amplitude (slm c) of
        None \<Rightarrow> Inl (ValueError ''_get_source_amplitude'')
      | Some amp \<Rightarrow> Inr (amp, slm_shape (slm c)))"
| "as_cameraslm r = Inl (AttributeError ''slm'')"

fun as_slm :: "pyref \<Rightarrow> error + image \<times> (nat \<times> nat)" where
  "as_slm (PySLM d) =
     (case slm_source_amplitude d of
        None \<Rightarrow> Inl (ValueError ''_get_source_amplitude'')
      | Some amp \<Rightarrow> Inr (amp, slm_shape d))"
| "as_slm r = Inl (AttributeError ''_get_source_amplitude'')"

fun the_cameraslm :: "pyref \<Rightarrow> fourier_slm option" where
  "the_cameraslm (PyFourierSLM c) = Some c"
| "the_cameraslm r = None"

text \<open>
  Lines 54 to 77: the reference kept in \<^verbatim>\<open>self.cameraslm\<close>, the amplitude, and the
  keyword arguments handed on to the base class.
\<close>

definition resolve_cameraslm ::
  "pyref \<Rightarrow> kwargs \<Rightarrow> error + fourier_slm option \<times> image option \<times> kwargs"
where
  "resolve_cameraslm r kw =
     (case (if r \<noteq> PyNone
            then (case as_cameraslm r of
                    Inr (amp, shp) \<Rightarrow> Inr (the_cameraslm r, Some amp, Some shp, kw)
                  | Inl e \<Rightarrow>
                      (case as_slm r of
                         Inr (amp, shp) \<Rightarrow> Inr (None, Some amp, Some shp, kw)
                       | Inl e' \<Rightarrow> Inl (ValueError expected_msg)))
            else Inr (None, (case kw_amp kw of None \<Rightarrow> None | Some v \<Rightarrow> v), None,
                      kw\<lparr>kw_amp := None\<rparr>))
      of
        Inl e \<Rightarrow> Inl e
      | Inr (cs, amp, slm_shp, kw1) \<Rightarrow>
          Inr (cs, amp,
               (if kw_slm_shape kw1 = None then kw1\<lparr>kw_slm_shape := Some slm_shp\<rparr> else kw1)))"

text \<open>The corners of the camera, lines 92 to 97, as \<open>(x, y)\<close> columns.\<close>

definition corner_points :: "nat \<times> nat \<Rightarrow> vec2 list" where
  "corner_points cs =
     (let ll = (0, 0);
          lr = (0, real_of_int (int (fst cs) - 1));
          ur = (real_of_int (int (snd cs) - 1), real_of_int (int (fst cs) - 1));
          ul = (real_of_int (int (snd cs) - 1), 0)
      in [ll, lr, ur, ul, ll])"

text \<open>
  \<^verbatim>\<open>__init__(self, shape, target_ij=None, cameraslm=None, **kwargs)\<close>, run in the world
  \<open>w\<close> that holds the caller's arrays. The call \<^verbatim>\<open>super().__init__(target=shape,
  amp=amp, **kwargs)\<close> is one step of the base class, which may raise.
\<close>

definition FeedbackHologram_init ::
  "collab \<Rightarrow> nat \<times> nat \<Rightarrow> addr option \<Rightarrow> pyref \<Rightarrow> kwargs \<Rightarrow> world \<Rightarrow> error + hologram"
where
  "FeedbackHologram_init E shp tij r kw w =
     (case resolve_cameraslm r kw of
        Inl e \<Rightarrow> Inl e
      | Inr (cs, amp, kw1) \<Rightarrow>
          (case Hologram_init E shp amp kw1 w of
             Inl e \<Rightarrow> Inl e
           | Inr h \<Rightarrow>
                 (let s0 = h\<lparr>cameraslm := cs, img_ij := None, img_knm := None\<rparr>;
                      s1 = (case tij of
                              None \<Rightarrow> s0\<lparr>target_ij := None\<rparr>
                            | Some a \<Rightarrow>
                                (let (c, s) = alloc (store s0 a) s0 in s\<lparr>target_ij := Some c\<rparr>))
                  in (case cameraslm s1 of
                        None \<Rightarrow> Inr (s1\<lparr>cam_points := None, cam_shape := None\<rparr>)
                      | Some c \<Rightarrow>
                          (case fourier_calibration c of
                             None \<Rightarrow> Inr (s1\<lparr>cam_points := None, cam_shape := None\<rparr>)
                           | Some cal \<Rightarrow>
                               (let cshape = camera_shape (cam c);
                                    points_kxy = map (ijcam_to_kxyslm E c) (corner_points cshape);
                                    s2 = s1\<lparr>cam_points :=
                                              Some (map (\<lambda>p. convert_vector E p ''kxy'' ''knm''
                                                            (slm c) (shape s1)) points_kxy),
                                            cam_shape := Some cshape\<rparr>
                                in (case tij of
                                      None \<Rightarrow> Inr s2
                                    | Some a \<Rightarrow>
                                        (case update_target E a True False s2 of
                                           (Some e, s3) \<Rightarrow> Inl e
                                         | (None, s3) \<Rightarrow> Inr s3))))))))"

section \<open>Stand-in collaborators and a small instance\<close>

text \<open>
  Concrete collaborators, used where a statement is run on an example: the root of the
  sum of squares with \<^verbatim>\<open>nan\<close> left out as the norm, nearest-neighbour resampling
  (order 0, zero outside the input) as the affine transform, and a three-tap smoothing of
  each row with the edge value repeated as the blur.
\<close>

fun sq_or_zero :: "fval \<Rightarrow> real" where
  "sq_or_zero (Fin x) = x * x"
| "sq_or_zero v = 0"

fun is_inf :: "fval \<Rightarrow> bool" where
  "is_inf PInf = True"
| "is_inf NInf = True"
| "is_inf v = False"

definition l2_norm :: "image \<Rightarrow> fval" where
  "l2_norm im =
     (if list_ex is_inf (concat im) then PInf
      else Fin (sqrt (sum_list (map sq_or_zero (concat im)))))"

definition sample :: "image \<Rightarrow> vec2 \<Rightarrow> fval" where
  "sample im p =
     (let i = \<lfloor>fst p + 1 / 2\<rfloor>; j = \<lfloor>snd p + 1 / 2\<rfloor>
      in if 0 \<le> i \<and> i < int (length im) \<and> 0 \<le> j \<and> j < int (length (im ! nat i))
         then im ! nat i ! nat j
         else Fin 0)"

definition nearest_affine :: "image \<Rightarrow> mat2 \<Rightarrow> vec2 \<Rightarrow> nat \<times> nat \<Rightarrow> int \<Rightarrow> image" where
  "nearest_affine im M b shp order =
     map (\<lambda>r. map (\<lambda>c. sample im (vadd (mat_vec M (real r, real c)) b)) [0..<snd shp])
         [0..<fst shp]"

fun fadd :: "fval \<Rightarrow> fval \<Rightarrow> fval" where
  "fadd (Fin x) (Fin y) = Fin (x + y)"
| "fadd NaN y = NaN"
| "fadd x NaN = NaN"
| "fadd PInf NInf = NaN"
| "fadd NInf PInf = NaN"
| "fadd PInf y = PInf"
| "fadd NInf y = NInf"
| "fadd x PInf = PInf"
| "fadd x NInf = NInf"

definition tap3 :: "fval \<Rightarrow> fval \<Rightarrow> fval \<Rightarrow> fval" where
  "tap3 l c r = fadd (fadd (fmul (Fin (1 / 4)) l) (fmul (Fin (1 / 2)) c)) (fmul (Fin (1 / 4)) r)"

fun blur_from :: "fval \<Rightarrow> fval list \<Rightarrow> fval list" where
  "blur_from l [] = []"
| "blur_from l [c] = [tap3 l c c]"
| "blur_from l (c # r # xs) = tap3 l c r # blur_from c (r # xs)"

definition blur_row :: "fval list \<Rightarrow> fval list" where
  "blur_row xs = (case xs of [] \<Rightarrow> [] | x # ys \<Rightarrow> blur_from x xs)"

definition zeros :: "nat \<times> nat \<Rightarrow> image" where
  "zeros shp = replicate (fst shp) (replicate (snd shp) (Fin 0))"

definition stub_Hologram_init ::
  "nat \<times> nat \<Rightarrow> image option \<Rightarrow> kwargs \<Rightarrow> world \<Rightarrow> error + hologram"
where
  "stub_Hologram_init shp amp kw w =
     (if kw_amp kw \<noteq> None
      then Inl (TypeError ''got multiple values for keyword argument amp'')
      else
     Inr \<lparr>store = (store w)(nxt w := zeros shp, Suc (nxt w) := zeros shp,
                              Suc (Suc (nxt w)) := zeros shp),
          nxt = Suc (Suc (Suc (nxt w))),
          io_log = io_log w,
          shape = shp,
          flags = \<lparr>flag_feedback = None, flag_blur_ij = None, flag_raw_stats = None\<rparr>,
          target = nxt w,
          weights = Suc (nxt w),
          amp_ff = None,
          phase = Suc (Suc (nxt w)),
          cameraslm = None,
          img_ij = None,
          img_knm = None,
          target_ij = None,
          cam_points = None,
          cam_shape = None\<rparr>)"

definition stub_collab :: "image \<Rightarrow> collab" where
  "stub_collab frame =
     \<lparr>Hologram_norm = l2_norm,
      cp_affine_transform = nearest_affine,
      sp_gaussian_filter = (\<lambda>im sigma. map blur_row im),
      convert_vector = (\<lambda>v from_units to_units d shp. v),
      ijcam_to_kxyslm = (\<lambda>c v. v),
      get_image = (\<lambda>l. frame),
      extract_phase = (\<lambda>s. store s (phase s)),
      reset_weights = (\<lambda>s. write_arr (weights s) (store s (target s)) s),
      update_weights_generic = (\<lambda>wa fa ta s. write_arr wa (store s ta) s),
      Hologram_init = stub_Hologram_init\<rparr>"

text \<open>
  A computational grid and a camera of one row and three columns. With the calibration
  \<open>demo_cal\<close> and the identity as \<^verbatim>\<open>convert_vector\<close> the composite map of
  \<^verbatim>\<open>ijcam_to_knmslm\<close> is the identity with offset zero.
\<close>

definition demo_slm :: slm_obj where
  "demo_slm = \<lparr>slm_shape = (1, 3), slm_source_amplitude = Some [[Fin 1, Fin 1, Fin 1]]\<rparr>"

definition demo_cal :: calibration where
  "demo_cal = \<lparr>cal_M = ((1, 0), (0, 1)), cal_b = (3 / 2, 1 / 2), cal_a = (0, 0)\<rparr>"

definition demo_fslm :: "calibration option \<Rightarrow> fourier_slm" where
  "demo_fslm cal = \<lparr>slm = demo_slm, cam = \<lparr>camera_shape = (1, 3)\<rparr>, fourier_calibration = cal\<rparr>"

definition demo_world :: "image \<Rightarrow> world" where
  "demo_world im = \<lparr>store = (\<lambda>a. [])(0 := im), nxt = 1, io_log = []\<rparr>"

definition no_kwargs :: kwargs where
  "no_kwargs = \<lparr>kw_amp = None, kw_slm_shape = None\<rparr>"

text \<open>
  An instance as the constructor builds it in \<open>demo_world im\<close> from no camera-basis
  target, the corner points left out: the arrays \<open>target\<close>, \<open>weights\<close> and \<open>phase\<close>
  at the addresses 1, 2 and 3, and the caller's array \<open>im\<close> at address 0.
\<close>

definition demo_state :: "image \<Rightarrow> fourier_slm option \<Rightarrow> hologram" where
  "demo_state im cs =
     \<lparr>store = (\<lambda>a. [])(0 := im, 1 := zeros (1, 3), 2 := zeros (1, 3), 3 := zeros (1, 3)),
      nxt = 4,
      io_log = [],
      shape = (1, 3),
      flags = \<lparr>flag_feedback = None, flag_blur_ij = None, flag_raw_stats = None\<rparr>,
      target = 1,
      weights = 2,
      amp_ff = None,
      phase = 3,
      cameraslm = cs,
      img_ij = None,
      img_knm = None,
      target_ij = None,
      cam_points = None,
      cam_shape = None\<rparr>"


definition spot_state :: hologram where
  "spot_state =
     (demo_state [] (Some (demo_fslm (Some demo_cal))))
       \<lparr>flags := \<lparr>flag_feedback = Some ''experimental_spot'', flag_blur_ij = None,
                  flag_raw_stats = None\<rparr>\<rparr>"

section \<open>The transform: what a call does\<close>

text \<open>
  On an instance that is not calibrated the first or the second assert fails and nothing
  is written.
\<close>

lemma ijcam_uncalibrated:
  "\<not> calibrated s \<Longrightarrow> ijcam_to_knmslm E img out blur_ij order s = (Inl AssertionError, s)"
  by (simp add: calibrated_def ijcam_to_knmslm_def split: option.splits)

text \<open>
  On a calibrated instance the call writes three arrays, in this order: the blurred image
  into \<open>img\<close>, its magnitude into a new array, and the resampled image times
  \<^verbatim>\<open>1 / norm\<close> into \<open>out\<close> or a second new array. It raises exactly when the norm is
  zero, after the three writes.
\<close>

lemma ijcam_calibrated:
  assumes "calibrated s"
  shows "ijcam_to_knmslm E img out blur_ij order s =
     (let im1 = blurred E (store s img) (effective_blur blur_ij (flags s));
          t = resampled E (store s img) blur_ij order s;
          n = Hologram_norm E t;
          tgt = (case out of None \<Rightarrow> Suc (nxt s) | Some a \<Rightarrow> a)
      in (if n = Fin 0 then Inl (ValueError no_power_msg) else Inr tgt,
          s\<lparr>store := (store s)(img := im1, nxt s := img_map fabs im1, tgt := scale (frecip n) t),
            nxt := (case out of None \<Rightarrow> Suc (Suc (nxt s)) | Some a \<Rightarrow> Suc (nxt s))\<rparr>))"
proof -
  from assms obtain cs cal
    where cs: "cameraslm s = Some cs" and cal: "fourier_calibration cs = Some cal"
    by (auto simp: calibrated_def split: option.splits)
  show ?thesis
  proof (cases out)
    case None
    then show ?thesis
      by (simp add: ijcam_to_knmslm_def cs cal Let_def alloc_def write_arr_def resampled_def
          blurred_def scale_def split_beta)
  next
    case (Some a)
    then show ?thesis
      by (simp add: ijcam_to_knmslm_def cs cal Let_def alloc_def write_arr_def resampled_def
          blurred_def scale_def split_beta)
  qed
qed


text \<open>
  The resampled image and the calibration depend on the shape, the flags and the
  \<^verbatim>\<open>cameraslm\<close> of the instance only.
\<close>

lemma resampled_upd [simp]:
  "resampled E im b order (s\<lparr>store := st\<rparr>) = resampled E im b order s"
  "resampled E im b order (s\<lparr>nxt := n\<rparr>) = resampled E im b order s"
  "resampled E im b order (s\<lparr>io_log := l\<rparr>) = resampled E im b order s"
  "resampled E im b order (s\<lparr>img_ij := i\<rparr>) = resampled E im b order s"
  "resampled E im b order (s\<lparr>img_knm := k\<rparr>) = resampled E im b order s"
  by (simp_all add: resampled_def split: option.splits)

lemma calibrated_upd [simp]:
  "calibrated (s\<lparr>store := st\<rparr>) = calibrated s"
  "calibrated (s\<lparr>nxt := n\<rparr>) = calibrated s"
  "calibrated (s\<lparr>io_log := l\<rparr>) = calibrated s"
  "calibrated (s\<lparr>img_ij := i\<rparr>) = calibrated s"
  "calibrated (s\<lparr>img_knm := k\<rparr>) = calibrated s"
  by (simp_all add: calibrated_def)


text \<open>Nothing times \<^verbatim>\<open>inf\<close> is finite.\<close>

lemma fmul_PInf_not_finite: "\<not> is_finite (fmul x PInf)"
  by (cases x) auto

lemma all_pixels_scale_PInf: "all_pixels (\<lambda>v. \<not> is_finite v) (scale PInf t)"
  by (simp add: all_pixels_def scale_def img_map_def list_all_iff fmul_PInf_not_finite)



section \<open>The stand-in collaborators and the small instance, evaluated\<close>

lemma stub_sel:
  "Hologram_norm (stub_collab fr) = l2_norm"
  "cp_affine_transform (stub_collab fr) = nearest_affine"
  "sp_gaussian_filter (stub_collab fr) = (\<lambda>im sigma. map blur_row im)"
  "convert_vector (stub_collab fr) = (\<lambda>v from_units to_units d shp. v)"
  "ijcam_to_kxyslm (stub_collab fr) = (\<lambda>c v. v)"
  "get_image (stub_collab fr) = (\<lambda>l. fr)"
  "extract_phase (stub_collab fr) = (\<lambda>s. store s (phase s))"
  "reset_weights (stub_collab fr) = (\<lambda>s. write_arr (weights s) (store s (target s)) s)"
  "update_weights_generic (stub_collab fr) = (\<lambda>wa fa ta s. write_arr wa (store s ta) s)"
  "Hologram_init (stub_collab fr) = stub_Hologram_init"
  by (simp_all add: stub_collab_def)

lemma demo_fslm_sel:
  "slm (demo_fslm cal) = demo_slm"
  "cam (demo_fslm cal) = \<lparr>camera_shape = (1, 3)\<rparr>"
  "fourier_calibration (demo_fslm cal) = cal"
  by (simp_all add: demo_fslm_def)

lemma demo_state_sel:
  "cameraslm (demo_state im cs) = cs"
  "shape (demo_state im cs) = (1, 3)"
  "flags (demo_state im cs) =
     \<lparr>flag_feedback = None, flag_blur_ij = None, flag_raw_stats = None\<rparr>"
  "nxt (demo_state im cs) = 4"
  "store (demo_state im cs) 0 = im"
  "io_log (demo_state im cs) = []"
  "target (demo_state im cs) = 1"
  "weights (demo_state im cs) = 2"
  "img_ij (demo_state im cs) = None"
  "img_knm (demo_state im cs) = None"
  by (simp_all add: demo_state_def)

lemma demo_calibrated: "calibrated (demo_state im (Some (demo_fslm (Some cal))))"
  by (simp add: calibrated_def demo_state_def demo_fslm_def)

lemma upt3: "[0..<3] = [0, 1, 2]"
  by (simp add: upt_rec)

lemma upt1: "[0..<Suc 0] = [0]"
  by (simp add: upt_rec)

lemma demo_composite_map:
  "composite_map (stub_collab fr) (demo_fslm (Some demo_cal)) demo_cal (Suc 0, 3) =
     (((1, 0), (0, 1)), (0, 0))"
  by (simp add: composite_map_def stub_collab_def demo_cal_def demo_fslm_def Let_def
      vsub_def vadd_def vneg_def vflip_def mdiag_def mat_vec_def mat_mul_def
      flip_axis0_def flip_axis1_def)

lemma nearest_identity3:
  "nearest_affine [[a, b, c]] ((1, 0), (0, 1)) (0, 0) (Suc 0, 3) order = [[a, b, c]]"
  by (simp add: nearest_affine_def sample_def vadd_def mat_vec_def upt3 upt1)

lemma demo_resampled_gen:
  "cameraslm s = Some (demo_fslm (Some demo_cal)) \<Longrightarrow> shape s = (Suc 0, 3) \<Longrightarrow>
   resampled (stub_collab fr) im bi order s =
     img_map fabs
       (nearest_affine
          (img_map fabs (blurred (stub_collab fr) im (effective_blur bi (flags s))))
          ((1, 0), (0, 1)) (0, 0) (Suc 0, 3) order)"
  by (simp add: resampled_def demo_fslm_sel demo_composite_map stub_sel)

lemma demo_resampled:
  "resampled (stub_collab fr) [[a, b, c]] None order
     (demo_state im (Some (demo_fslm (Some demo_cal)))) =
   [[fabs (fabs a), fabs (fabs b), fabs (fabs c)]]"
  by (simp add: demo_resampled_gen demo_state_sel effective_blur_def blurred_def img_map_def
      nearest_identity3)









section \<open>Claims about the coordinate transform\<close>

text \<open>
  Claim C7. A call of \<^verbatim>\<open>ijcam_to_knmslm\<close> on an instance that has no
  \<^verbatim>\<open>cameraslm\<close>, or whose \<^verbatim>\<open>cameraslm\<close> has no Fourier calibration, fails: one of the
  two asserts raises \<^verbatim>\<open>AssertionError\<close> (the specification's
  \<^verbatim>\<open>NotCalibratedError\<close>), whatever the image, the output buffer, the blur and the
  order are, and the instance is left as it was.
\<close>

theorem ijcam_to_knmslm_needs_calibration:
  "cameraslm s = None \<or> (\<exists>cs. cameraslm s = Some cs \<and> fourier_calibration cs = None) \<Longrightarrow>
   ijcam_to_knmslm E img out blur_ij order s = (Inl AssertionError, s)"
  by (rule ijcam_uncalibrated) (auto simp: calibrated_def)

theorem ijcam_to_knmslm_needs_calibration_witness:
  "ijcam_to_knmslm (stub_collab []) 0 None None 3 (demo_state [[Fin 1]] None) =
     (Inl AssertionError, demo_state [[Fin 1]] None) \<and>
   ijcam_to_knmslm (stub_collab []) 0 (Some 1) (Some 2) 0
       (demo_state [[Fin 1]] (Some (demo_fslm None))) =
     (Inl AssertionError, demo_state [[Fin 1]] (Some (demo_fslm None)))"
  using ijcam_to_knmslm_needs_calibration
          [of "demo_state [[Fin 1]] None" "stub_collab []" 0 None None 3]
        ijcam_to_knmslm_needs_calibration
          [of "demo_state [[Fin 1]] (Some (demo_fslm None))" "stub_collab []" 0 "Some 1" "Some 2" 0]
  by (simp add: demo_state_sel demo_fslm_sel)




text \<open>
  Claim C9. When the total power of the resampled image is zero, \<^verbatim>\<open>ijcam_to_knmslm\<close>
  raises only after \<^verbatim>\<open>target *= 1 / norm\<close> has run on the output buffer: the call fails
  with the \<^verbatim>\<open>ValueError\<close>, and the caller's buffer \<open>a\<close> holds the resampled image
  times \<^verbatim>\<open>inf\<close>, in which no element is finite; a buffer that held a finite element
  before is therefore changed. The same holds for \<^verbatim>\<open>update_target\<close>, which passes
  \<^verbatim>\<open>self.target\<close> as the buffer: it fails and leaves the persistent target without a
  finite element.
\<close>

theorem ijcam_to_knmslm_failure_not_atomic:
  assumes "calibrated s" and "total_power E (store s img) blur_ij order s = Fin 0"
  shows "fst (ijcam_to_knmslm E img (Some a) blur_ij order s) = Inl (ValueError no_power_msg) \<and>
         store (snd (ijcam_to_knmslm E img (Some a) blur_ij order s)) a =
           scale PInf (resampled E (store s img) blur_ij order s) \<and>
         all_pixels (\<lambda>v. \<not> is_finite v)
           (store (snd (ijcam_to_knmslm E img (Some a) blur_ij order s)) a) \<and>
         (\<not> all_pixels (\<lambda>v. \<not> is_finite v) (store s a) \<longrightarrow>
            store (snd (ijcam_to_knmslm E img (Some a) blur_ij order s)) a \<noteq> store s a) \<and>
         (blur_ij = None \<and> order = 0 \<longrightarrow>
            fst (update_target E img reset plot s) = Some (ValueError no_power_msg) \<and>
            target (snd (update_target E img reset plot s)) = target s \<and>
            all_pixels (\<lambda>v. \<not> is_finite v)
              (store (snd (update_target E img reset plot s)) (target s)))"
proof -
  let ?r = "ijcam_to_knmslm E img (Some a) blur_ij order s"
  have f: "fst ?r = Inl (ValueError no_power_msg)"
    using assms by (simp add: ijcam_calibrated total_power_def Let_def)
  have c: "store (snd ?r) a = scale PInf (resampled E (store s img) blur_ij order s)"
    using assms by (simp add: ijcam_calibrated total_power_def Let_def)
  have n: "all_pixels (\<lambda>v. \<not> is_finite v) (store (snd ?r) a)"
    unfolding c by (rule all_pixels_scale_PInf)
  have d: "\<not> all_pixels (\<lambda>v. \<not> is_finite v) (store s a) \<longrightarrow> store (snd ?r) a \<noteq> store s a"
    using n by auto
  have u: "blur_ij = None \<and> order = 0 \<longrightarrow>
            fst (update_target E img reset plot s) = Some (ValueError no_power_msg) \<and>
            target (snd (update_target E img reset plot s)) = target s \<and>
            all_pixels (\<lambda>v. \<not> is_finite v)
              (store (snd (update_target E img reset plot s)) (target s))"
    using assms
    by (auto simp: update_target_def ijcam_calibrated total_power_def Let_def
        all_pixels_scale_PInf)
  from f c n d u show ?thesis by blast
qed

text \<open>
  An all-zero camera image has no power: the transform into the target buffer (array 1,
  all zero before) raises and leaves \<open>[[nan, nan, nan]]\<close> there, and so does
  \<^verbatim>\<open>update_target\<close>.
\<close>

theorem ijcam_to_knmslm_failure_not_atomic_witness:
  "fst (ijcam_to_knmslm (stub_collab []) 0 (Some 1) None 0
          (demo_state [[Fin 0, Fin 0, Fin 0]] (Some (demo_fslm (Some demo_cal))))) =
     Inl (ValueError no_power_msg) \<and>
   store (snd (ijcam_to_knmslm (stub_collab []) 0 (Some 1) None 0
          (demo_state [[Fin 0, Fin 0, Fin 0]] (Some (demo_fslm (Some demo_cal)))))) 1 =
     [[NaN, NaN, NaN]] \<and>
   store (demo_state [[Fin 0, Fin 0, Fin 0]] (Some (demo_fslm (Some demo_cal)))) 1 =
     [[Fin 0, Fin 0, Fin 0]] \<and>
   fst (update_target (stub_collab []) 0 True False
          (demo_state [[Fin 0, Fin 0, Fin 0]] (Some (demo_fslm (Some demo_cal))))) =
     Some (ValueError no_power_msg) \<and>
   store (snd (update_target (stub_collab []) 0 True False
          (demo_state [[Fin 0, Fin 0, Fin 0]] (Some (demo_fslm (Some demo_cal)))))) 1 =
     [[NaN, NaN, NaN]]"
proof -
  let ?s = "demo_state [[Fin 0, Fin 0, Fin 0]] (Some (demo_fslm (Some demo_cal)))"
  have p: "total_power (stub_collab []) (store ?s 0) None 0 ?s = Fin 0"
    by (simp add: total_power_def demo_state_sel demo_resampled stub_sel l2_norm_def)
  have z: "store ?s 1 = [[Fin 0, Fin 0, Fin 0]]"
    by (simp add: demo_state_def zeros_def numeral_3_eq_3)
  have u: "store (snd (update_target (stub_collab []) 0 True False ?s)) 1 = [[NaN, NaN, NaN]]"
    using p
    by (simp add: update_target_def ijcam_calibrated demo_calibrated total_power_def Let_def
        demo_state_sel demo_resampled scale_def img_map_def)
  from ijcam_to_knmslm_failure_not_atomic [OF demo_calibrated p, of 1 True False] z u
  show ?thesis
    by (simp add: demo_state_sel demo_resampled scale_def img_map_def)
qed



section \<open>Claims about the target\<close>



section \<open>The measurement cache: what a call does\<close>







section \<open>Claims about the measurement cache\<close>





section \<open>The two ways the computational-basis cache is filled\<close>










section \<open>Claims about the weights and the constructor\<close>

text \<open>
  Claim C2, as amended. For every value of the flag \<^verbatim>\<open>"feedback"\<close> other than
  \<^verbatim>\<open>"computational"\<close> and \<^verbatim>\<open>"experimental"\<close>, \<^verbatim>\<open>_update_weights\<close> raises nothing and
  leaves the instance as it is: no measurement is taken and no weight is changed. Only
  a missing \<^verbatim>\<open>"feedback"\<close> key raises, a \<^verbatim>\<open>KeyError\<close>.
\<close>

theorem update_weights_unknown_mode_silent:
  "(flag_feedback (flags s) = Some mode \<and> mode \<noteq> ''computational'' \<and> mode \<noteq> ''experimental'' \<longrightarrow>
      update_weights E s = (None, s)) \<and>
   (flag_feedback (flags s) = None \<longrightarrow> update_weights E s = (Some (KeyError ''feedback''), s))"
  by (simp add: update_weights_def)

text \<open>The mode \<^verbatim>\<open>"experimental_spot"\<close>, and an instance with no \<^verbatim>\<open>"feedback"\<close> flag.\<close>

theorem update_weights_unknown_mode_silent_witness:
  "update_weights (stub_collab []) spot_state = (None, spot_state) \<and>
   update_weights (stub_collab []) (demo_state [] None) = (Some (KeyError ''feedback''), demo_state [] None)"
  using update_weights_unknown_mode_silent [of spot_state "''experimental_spot''" "stub_collab []"]
        update_weights_unknown_mode_silent [of "demo_state [] None" "''x''" "stub_collab []"]
  by (simp add: spot_state_def demo_state_sel)

text \<open>
  Claim C2 as stated fails: with the flag at \<^verbatim>\<open>"experimental_spot"\<close> the call returns
  without an exception and changes nothing.
\<close>

theorem update_weights_unknown_mode_counterexample:
  "flag_feedback (flags spot_state) = Some ''experimental_spot'' \<and>
   fst (update_weights (stub_collab []) spot_state) = None \<and>
   snd (update_weights (stub_collab []) spot_state) = spot_state"
  by (simp add: update_weights_def spot_state_def)

text \<open>
  Claim C3. The constructor first reads its \<^verbatim>\<open>cameraslm\<close> argument as a
  camera-equipped controller, and keeps the reference when that succeeds. When it fails
  and the argument can be read as a bare SLM, the amplitude is taken from the SLM and
  \<^verbatim>\<open>self.cameraslm\<close> is set to \<^verbatim>\<open>None\<close>, so the instance built has no feedback, no
  corner points and no camera shape. When both readings fail the constructor raises the
  \<^verbatim>\<open>ValueError\<close> "Expected a CameraSLM or SLM" (the specification's
  \<^verbatim>\<open>ConfigurationError\<close>). A controller whose Fourier calibration is \<^verbatim>\<open>None\<close> raises
  nothing in this class: either the base constructor fails and its exception is the
  result, or the instance keeps the controller and has \<^verbatim>\<open>cam_points\<close> and
  \<^verbatim>\<open>cam_shape\<close> at \<^verbatim>\<open>None\<close>.
\<close>

theorem init_resolves_cameraslm:
  "(as_cameraslm r = Inr (amp, shp) \<longrightarrow>
      the_cameraslm r \<noteq> None \<and>
      (\<exists>kw'. resolve_cameraslm r kw = Inr (the_cameraslm r, Some amp, kw'))) \<and>
   (r \<noteq> PyNone \<and> as_cameraslm r = Inl e \<and> as_slm r = Inr (amp, shp) \<longrightarrow>
      (\<exists>kw'. resolve_cameraslm r kw = Inr (None, Some amp, kw')) \<and>
      (case FeedbackHologram_init E shp0 tij r kw w of
         Inl x \<Rightarrow> \<exists>kw'. Hologram_init E shp0 (Some amp) kw' w = Inl x
       | Inr s \<Rightarrow> cameraslm s = None \<and> cam_points s = None \<and> cam_shape s = None)) \<and>
   (r \<noteq> PyNone \<and> as_cameraslm r = Inl e \<and> as_slm r = Inl e' \<longrightarrow>
      resolve_cameraslm r kw = Inl (ValueError expected_msg) \<and>
      FeedbackHologram_init E shp0 tij r kw w = Inl (ValueError expected_msg)) \<and>
   (r = PyFourierSLM c \<and> slm_source_amplitude (slm c) = Some amp \<and> fourier_calibration c = None \<longrightarrow>
      (case FeedbackHologram_init E shp0 tij r kw w of
         Inl x \<Rightarrow> \<exists>kw'. Hologram_init E shp0 (Some amp) kw' w = Inl x
       | Inr s \<Rightarrow> cameraslm s = Some c \<and> cam_points s = None \<and> cam_shape s = None))"
proof -
  have a: "as_cameraslm r = Inr (amp, shp) \<longrightarrow>
      the_cameraslm r \<noteq> None \<and>
      (\<exists>kw'. resolve_cameraslm r kw = Inr (the_cameraslm r, Some amp, kw'))"
    by (cases r) (auto simp: resolve_cameraslm_def split: option.splits)
  have b1: "r \<noteq> PyNone \<and> as_cameraslm r = Inl e \<and> as_slm r = Inr (amp, shp) \<longrightarrow>
      (\<exists>kw'. resolve_cameraslm r kw = Inr (None, Some amp, kw'))"
    by (auto simp: resolve_cameraslm_def)
  have b2: "r \<noteq> PyNone \<and> as_cameraslm r = Inl e \<and> as_slm r = Inr (amp, shp) \<longrightarrow>
      (case FeedbackHologram_init E shp0 tij r kw w of
         Inl x \<Rightarrow> \<exists>kw'. Hologram_init E shp0 (Some amp) kw' w = Inl x
       | Inr s \<Rightarrow> cameraslm s = None \<and> cam_points s = None \<and> cam_shape s = None)"
    by (auto simp: FeedbackHologram_init_def resolve_cameraslm_def Let_def alloc_def
        split: sum.splits option.splits prod.splits)
  have c: "r \<noteq> PyNone \<and> as_cameraslm r = Inl e \<and> as_slm r = Inl e' \<longrightarrow>
      resolve_cameraslm r kw = Inl (ValueError expected_msg) \<and>
      FeedbackHologram_init E shp0 tij r kw w = Inl (ValueError expected_msg)"
    by (auto simp: FeedbackHologram_init_def resolve_cameraslm_def)
  have d: "r = PyFourierSLM c \<and> slm_source_amplitude (slm c) = Some amp \<and> fourier_calibration c = None \<longrightarrow>
      (case FeedbackHologram_init E shp0 tij r kw w of
         Inl x \<Rightarrow> \<exists>kw'. Hologram_init E shp0 (Some amp) kw' w = Inl x
       | Inr s \<Rightarrow> cameraslm s = Some c \<and> cam_points s = None \<and> cam_shape s = None)"
    by (auto simp: FeedbackHologram_init_def resolve_cameraslm_def Let_def alloc_def
        split: sum.splits option.splits prod.splits)
  from a b1 b2 c d show ?thesis by blast
qed

lemma demo_init:
  "FeedbackHologram_init (stub_collab []) (1, 3) None (PyFourierSLM (demo_fslm None)) no_kwargs
     (demo_world im) = Inr (demo_state im (Some (demo_fslm None)))"
  "FeedbackHologram_init (stub_collab []) (1, 3) None (PySLM demo_slm) no_kwargs
     (demo_world im) = Inr (demo_state im None)"
  "FeedbackHologram_init (stub_collab []) (1, 3) None PyOther no_kwargs
     (demo_world im) = Inl (ValueError expected_msg)"
  by (simp_all add: FeedbackHologram_init_def resolve_cameraslm_def stub_sel stub_Hologram_init_def
      demo_fslm_def demo_slm_def no_kwargs_def demo_world_def demo_state_def Let_def numeral_eq_Suc)

text \<open>
  A controller without calibration, a bare SLM, and an object that is neither, passed to
  the constructor.
\<close>

theorem init_resolves_cameraslm_witness:
  "FeedbackHologram_init (stub_collab []) (1, 3) None (PyFourierSLM (demo_fslm None)) no_kwargs
     (demo_world []) = Inr (demo_state [] (Some (demo_fslm None))) \<and>
   cam_points (demo_state [] (Some (demo_fslm None))) = None \<and>
   cam_shape (demo_state [] (Some (demo_fslm None))) = None \<and>
   FeedbackHologram_init (stub_collab []) (1, 3) None (PySLM demo_slm) no_kwargs
     (demo_world []) = Inr (demo_state [] None) \<and>
   FeedbackHologram_init (stub_collab []) (1, 3) None PyOther no_kwargs
     (demo_world []) = Inl (ValueError expected_msg)"
  using init_resolves_cameraslm
          [where r = "PyFourierSLM (demo_fslm None)" and amp = "[[Fin 1, Fin 1, Fin 1]]" and shp = "(1, 3)"
              and kw = no_kwargs and e = "AttributeError ''slm''" and E = "stub_collab []"
              and ?shp0.0 = "(1, 3)" and tij = None and w = "demo_world []"
              and e' = "AttributeError ''_get_source_amplitude''" and c = "demo_fslm None"]
        init_resolves_cameraslm
          [where r = "PySLM demo_slm" and amp = "[[Fin 1, Fin 1, Fin 1]]" and shp = "(1, 3)"
              and kw = no_kwargs and e = "AttributeError ''slm''" and E = "stub_collab []"
              and ?shp0.0 = "(1, 3)" and tij = None and w = "demo_world []"
              and e' = "AttributeError ''_get_source_amplitude''" and c = "demo_fslm None"]
        init_resolves_cameraslm
          [where r = PyOther and amp = "[[Fin 1, Fin 1, Fin 1]]" and shp = "(1, 3)"
              and kw = no_kwargs and e = "AttributeError ''slm''" and E = "stub_collab []"
              and ?shp0.0 = "(1, 3)" and tij = None and w = "demo_world []"
              and e' = "AttributeError ''_get_source_amplitude''" and c = "demo_fslm None"]
        demo_init [of "[]"]
  by (simp add: demo_fslm_def demo_slm_def demo_state_def)

end
